theory Spec2Isabelle
  imports Main "HOL-Library.Word"
begin

unbundle bit_operations_syntax

section \<open>Bytecode accessors of the interpreter (interpreter/bytecode.cpp)\<close>

text \<open>
  A shallow embedding of \<^verbatim>\<open>src/hotspot/src/share/vm/interpreter/bytecode.cpp\<close>.
  Every function of that file that a statement below is about is translated line by line.
  The file includes headers that are not available (\<^verbatim>\<open>bytecode.hpp\<close>,
  \<^verbatim>\<open>bytecodes.hpp\<close>, \<^verbatim>\<open>constantPoolOop.hpp\<close>, \<^verbatim>\<open>linkResolver.hpp\<close>);
  what they declare enters either as a field of a record of collaborators (the opcode
  metadata, the constant pool, the link resolver) or as a small definition marked
  \<open>Modelled from the spec\<close>.

  Conventions.
  \<^item> A C++ \<^verbatim>\<open>int\<close> is a HOL \<open>int\<close>. A 4 byte field of the instruction stream is read
    as a 32 bit word in two's complement, a 1 or 2 byte operand as an unsigned number,
    so every value read lies in the \<^verbatim>\<open>int\<close> range.
  \<^item> A function returns \<open>error + 'a\<close>: \<open>Inl\<close> is a failed \<^verbatim>\<open>assert\<close>, a call of
    \<^verbatim>\<open>fatal\<close>, a read outside the method's bytecodes, the use of a \<^verbatim>\<open>NULL\<close> cache, or a
    Java exception left pending by a \<^verbatim>\<open>TRAPS\<close> callee.
  \<^item> \<^verbatim>\<open>assert(...)\<close> and \<^verbatim>\<open>DEBUG_ONLY(...)\<close> are compiled in exactly when the build
    defines \<^verbatim>\<open>ASSERT\<close>; the field \<open>ASSERT\<close> of the record of globals says so. The
    function inside \<^verbatim>\<open>#ifdef ASSERT\<close> exists in such builds only, so its asserts are
    active; the functions inside \<^verbatim>\<open>#ifndef PRODUCT\<close> are modelled as a build without
    \<^verbatim>\<open>PRODUCT\<close> compiles them, their asserts again depending on \<open>ASSERT\<close>.
\<close>

subsection \<open>Values and failures\<close>

type_synonym Code = nat
type_synonym u_char = "8 word"
type_synonym symbolOop = string
type_synonym oop = string
type_synonym methodHandle = string
type_synonym KlassHandle = string

datatype error =
    Assert_failed string
  | Fatal string
  | Out_of_code
  | Null_cache
  | Bad_cache_index int
  | Pending_exception string

definition and_then :: "error + 'a \<Rightarrow> ('a \<Rightarrow> error + 'b) \<Rightarrow> error + 'b" where
  "and_then r f = (case r of Inl e \<Rightarrow> Inl e | Inr x \<Rightarrow> f x)"

text \<open>
  Modelled from the spec: the enumeration \<^verbatim>\<open>Bytecodes::Code\<close> is declared in
  \<^verbatim>\<open>bytecodes.hpp\<close>. An opcode is its number, the first byte of the instruction
  (glossary: \<open>Opcode\<close>); the numbers are those of the Java instruction set, of which
  the spec's scenario names \<^verbatim>\<open>B6\<close> for \<^verbatim>\<open>invokevirtual\<close>. Only the distinctness of
  the named opcodes enters the statements below.
\<close>

definition Bytecodes_ldc :: Code where "Bytecodes_ldc = 18"
definition Bytecodes_aload_0 :: Code where "Bytecodes_aload_0 = 42"
definition Bytecodes_tableswitch :: Code where "Bytecodes_tableswitch = 170"
definition Bytecodes_lookupswitch :: Code where "Bytecodes_lookupswitch = 171"
definition Bytecodes_invokevirtual :: Code where "Bytecodes_invokevirtual = 182"
definition Bytecodes_invokeinterface :: Code where "Bytecodes_invokeinterface = 185"
definition Bytecodes_invokedynamic :: Code where "Bytecodes_invokedynamic = 186"
definition Bytecodes_new :: Code where "Bytecodes_new = 187"
definition Bytecodes_wide :: Code where "Bytecodes_wide = 196"
definition Bytecodes_breakpoint :: Code where "Bytecodes_breakpoint = 202"

text \<open>Modelled from the spec: \<^verbatim>\<open>Bytecodes::cast\<close> turns the byte read into its opcode.\<close>

definition Bytecodes_cast :: "u_char \<Rightarrow> Code" where
  "Bytecodes_cast b = unat b"

definition jintSize :: int where
  "jintSize = 4"

subsection \<open>Collaborators\<close>

text \<open>
  The opcode metadata (spec 6, \<open>Opcode metadata\<close>), the build and the constants this
  file uses without defining them. \<open>has_index_u4\<close> and \<open>has_cache_index\<close> are the
  accessors' tests of the encoding, which depend on the opcode at \<^verbatim>\<open>pc_offset\<close> alone
  (spec 3, \<open>Member Reference\<close>).
\<close>

record globals =
  ASSERT :: bool
  flags :: "Code \<Rightarrow> bool \<Rightarrow> int"
  all_fmt_bits :: int
  java_code :: "Code \<Rightarrow> Code"
  can_rewrite :: "Code \<Rightarrow> bool"
  has_index_u4 :: "Code \<Rightarrow> bool"
  has_cache_index :: "Code \<Rightarrow> bool"
  CPCACHE_INDEX_TAG :: int

text \<open>
  The constant pool cache (spec 6: \<^verbatim>\<open>entry_at(slot) -> {constant_pool_index, ...}\<close>) and
  the constant pool (\<^verbatim>\<open>name_ref_at\<close>, \<^verbatim>\<open>signature_ref_at\<close>, \<^verbatim>\<open>resolve_constant_at\<close>,
  \<^verbatim>\<open>resolve_cached_constant_at\<close>). \<open>cache = None\<close> is the \<^verbatim>\<open>NULL\<close> cache of a pool that
  has not been rewritten.
\<close>

record ConstantPoolCacheEntry =
  constant_pool_index :: int

type_synonym constantPoolCacheOop = "ConstantPoolCacheEntry list"

record constantPoolOop =
  cache :: "constantPoolCacheOop option"
  name_ref_at :: "int \<Rightarrow> symbolOop"
  signature_ref_at :: "int \<Rightarrow> symbolOop"
  resolve_constant_at :: "int \<Rightarrow> error + oop"
  resolve_cached_constant_at :: "int \<Rightarrow> error + oop"

record methodOop =
  code_base :: "u_char list"
  constants :: constantPoolOop

text \<open>
  The link resolver (spec 6): each entry takes the constant pool and the index and
  gives the resolved method and class, or leaves an exception pending.
\<close>

record LinkResolver =
  resolve_method :: "constantPoolOop \<Rightarrow> int \<Rightarrow> error + (methodHandle \<times> KlassHandle)"
  resolve_interface_method :: "constantPoolOop \<Rightarrow> int \<Rightarrow> error + (methodHandle \<times> KlassHandle)"
  resolve_dynamic_method :: "constantPoolOop \<Rightarrow> int \<Rightarrow> error + (methodHandle \<times> KlassHandle)"

text \<open>
  Modelled from the spec: \<^verbatim>\<open>entry_at\<close> of the cache. A slot outside the cache is an
  internal-consistency failure (spec 7).
\<close>

definition entry_at :: "constantPoolCacheOop \<Rightarrow> int \<Rightarrow> error + ConstantPoolCacheEntry" where
  "entry_at c i =
     (if 0 \<le> i \<and> i < int (length c) then Inr (c ! nat i) else Inl (Bad_cache_index i))"

subsection \<open>The instruction accessor\<close>

text \<open>
  An accessor is a method and the offset \<open>bci\<close> of an instruction in its bytecodes.

  Modelled from the spec (4.2): \<^verbatim>\<open>byte_at\<close>, \<^verbatim>\<open>get_Java_u2_at\<close> and \<^verbatim>\<open>get_Java_u4_at\<close> are
  big-endian reads relative to \<^verbatim>\<open>pc_offset\<close>; a read that leaves the method's bytecodes
  is the failure \<open>Out_of_code\<close>. \<^verbatim>\<open>aligned_offset\<close> rounds \<^verbatim>\<open>pc_offset + raw_offset\<close> up
  to the next multiple of four; the result is again relative to \<^verbatim>\<open>pc_offset\<close>, since it
  is handed to the relative reads (the jump table starts at the first aligned offset
  at or after \<^verbatim>\<open>pc_offset + 1\<close>, spec 3).
\<close>

definition byte_at :: "methodOop \<Rightarrow> nat \<Rightarrow> int \<Rightarrow> error + u_char" where
  "byte_at m bci offset =
     (let a = int bci + offset in
      if 0 \<le> a \<and> a < int (length (code_base m)) then Inr (code_base m ! nat a)
      else Inl Out_of_code)"

definition Bytes_get_Java_u2 :: "u_char \<Rightarrow> u_char \<Rightarrow> 16 word" where
  "Bytes_get_Java_u2 b0 b1 = word_of_nat (unat b0 * 256 + unat b1)"

definition Bytes_get_Java_u4 :: "u_char \<Rightarrow> u_char \<Rightarrow> u_char \<Rightarrow> u_char \<Rightarrow> 32 word" where
  "Bytes_get_Java_u4 b0 b1 b2 b3 =
     word_of_nat (unat b0 * 16777216 + unat b1 * 65536 + unat b2 * 256 + unat b3)"

definition get_Java_u2_at :: "methodOop \<Rightarrow> nat \<Rightarrow> int \<Rightarrow> error + int" where
  "get_Java_u2_at m bci offset =
     and_then (byte_at m bci offset) (\<lambda>b0.
     and_then (byte_at m bci (offset + 1)) (\<lambda>b1.
       Inr (uint (Bytes_get_Java_u2 b0 b1))))"

definition get_Java_u4_at :: "methodOop \<Rightarrow> nat \<Rightarrow> int \<Rightarrow> error + int" where
  "get_Java_u4_at m bci offset =
     and_then (byte_at m bci offset) (\<lambda>b0.
     and_then (byte_at m bci (offset + 1)) (\<lambda>b1.
     and_then (byte_at m bci (offset + 2)) (\<lambda>b2.
     and_then (byte_at m bci (offset + 3)) (\<lambda>b3.
       Inr (sint (Bytes_get_Java_u4 b0 b1 b2 b3))))))"

definition round_to :: "int \<Rightarrow> int \<Rightarrow> int" where
  "round_to x s = ((x + (s - 1)) div s) * s"

definition aligned_offset :: "nat \<Rightarrow> int \<Rightarrow> int" where
  "aligned_offset bci offset = round_to (int bci + offset) jintSize - int bci"

text \<open>
  Modelled from the spec: \<^verbatim>\<open>code()\<close> is the opcode at \<^verbatim>\<open>pc_offset\<close>, read afresh at
  every use (spec 3 and 9).
\<close>

definition Bytecode_code :: "methodOop \<Rightarrow> nat \<Rightarrow> error + Code" where
  "Bytecode_code m bci = and_then (byte_at m bci 0) (\<lambda>b. Inr (Bytecodes_cast b))"

text \<open>
  Modelled from the spec: the operand readers of \<^verbatim>\<open>bytecode.hpp\<close>. \<^verbatim>\<open>get_index_u1\<close>,
  \<^verbatim>\<open>get_index_u2\<close> and \<^verbatim>\<open>get_index_u4\<close> return the raw field of one, two and four
  bytes after the opcode (after the \<^verbatim>\<open>wide\<close> prefix and the opcode when \<open>is_wide\<close>).
  \<^verbatim>\<open>get_index_u2_cpcache\<close> returns the two byte field as a cache index; it carries the
  cache-index tag (spec 4.3) in exactly the builds in which \<^verbatim>\<open>pool_index\<close> below takes
  the tag off again, those with \<^verbatim>\<open>ASSERT\<close>. The format checks these readers make in
  debug builds are not part of the model.
\<close>

definition get_index_u1 :: "methodOop \<Rightarrow> nat \<Rightarrow> Code \<Rightarrow> error + int" where
  "get_index_u1 m bci bc = and_then (byte_at m bci 1) (\<lambda>b. Inr (uint b))"

definition get_index_u2 :: "methodOop \<Rightarrow> nat \<Rightarrow> Code \<Rightarrow> bool \<Rightarrow> error + int" where
  "get_index_u2 m bci bc is_wide = get_Java_u2_at m bci (if is_wide then 2 else 1)"

definition get_index_u4 :: "methodOop \<Rightarrow> nat \<Rightarrow> Code \<Rightarrow> error + int" where
  "get_index_u4 m bci bc = get_Java_u4_at m bci 1"

definition get_index_u2_cpcache :: "globals \<Rightarrow> methodOop \<Rightarrow> nat \<Rightarrow> Code \<Rightarrow> error + int" where
  "get_index_u2_cpcache g m bci bc =
     and_then (get_Java_u2_at m bci 1) (\<lambda>i.
       Inr (if ASSERT g then i + CPCACHE_INDEX_TAG g else i))"

subsection \<open>Implementation of Bytecode\<close>

text \<open>\<^verbatim>\<open>Bytecode::check_must_rewrite\<close>, lines 37 to 58.\<close>

definition check_must_rewrite :: "globals \<Rightarrow> Code \<Rightarrow> error + bool" where
  "check_must_rewrite g code =
     (if ASSERT g \<and> \<not> can_rewrite g code then Inl (Assert_failed ''post-check only'')
      else if code = Bytecodes_aload_0 then Inr False
      else if code = Bytecodes_lookupswitch then Inr False
      else if code = Bytecodes_new then Inr False
      else Inr True)"

text \<open>
  \<^verbatim>\<open>Bytecode::assert_same_format_as\<close>, lines 63 to 77. The last four lines of the
  function are \<open>expected_format\<close>: the masked flags are compared and the assert fails
  when they differ (the line printed before it is not modelled). As in the source,
  \<open>thisflags\<close> are the flags of \<open>testbc\<close> and \<open>testflags\<close> those of \<open>thisbc\<close>.
\<close>

definition expected_format :: "globals \<Rightarrow> Code \<Rightarrow> Code \<Rightarrow> bool \<Rightarrow> error + unit" where
  "expected_format g testbc thisbc is_wide =
     (let thisflags = flags g testbc is_wide AND all_fmt_bits g;
          testflags = flags g thisbc is_wide AND all_fmt_bits g
      in if thisflags = testflags then Inr () else Inl (Assert_failed ''expected format''))"

definition assert_same_format_as :: "globals \<Rightarrow> methodOop \<Rightarrow> nat \<Rightarrow> Code \<Rightarrow> bool \<Rightarrow> error + unit" where
  "assert_same_format_as g m bci testbc is_wide =
     and_then (byte_at m bci 0) (\<lambda>b0.
       let thisbc = Bytecodes_cast b0 in
       if thisbc = Bytecodes_breakpoint then Inr ()
       else if is_wide then
         (if thisbc \<noteq> Bytecodes_wide then Inl (Assert_failed ''expected a wide instruction'')
          else and_then (byte_at m bci 1) (\<lambda>b1.
            let thisbc = Bytecodes_cast b1 in
            if thisbc = Bytecodes_breakpoint then Inr ()
            else expected_format g testbc thisbc is_wide))
       else expected_format g testbc thisbc is_wide)"

subsection \<open>Implementation of Bytecode_tableswitch\<close>

text \<open>\<^verbatim>\<open>Bytecode_tableswitch::dest_offset_at\<close>, lines 138 to 140.\<close>

definition dest_offset_at :: "methodOop \<Rightarrow> nat \<Rightarrow> int \<Rightarrow> error + int" where
  "dest_offset_at m bci i = get_Java_u4_at m bci (aligned_offset bci (1 + (3 + i) * jintSize))"

text \<open>
  Modelled from the spec (4.6): the three header words \<open>default\<close>, \<open>low\<close>, \<open>high\<close> are
  4 byte fields at the aligned offsets after the opcode byte.
\<close>

definition default_offset :: "methodOop \<Rightarrow> nat \<Rightarrow> error + int" where
  "default_offset m bci = get_Java_u4_at m bci (aligned_offset bci (1 + 0 * jintSize))"

definition low_key :: "methodOop \<Rightarrow> nat \<Rightarrow> error + int" where
  "low_key m bci = get_Java_u4_at m bci (aligned_offset bci (1 + 1 * jintSize))"

definition high_key :: "methodOop \<Rightarrow> nat \<Rightarrow> error + int" where
  "high_key m bci = get_Java_u4_at m bci (aligned_offset bci (1 + 2 * jintSize))"

text \<open>
  The loop of \<^verbatim>\<open>Bytecode_tableswitch::verify\<close>, lines 276 to 279: \<^verbatim>\<open>while (i-- > 0)\<close> with
  an empty body.
\<close>

function tableswitch_verify_loop :: "int \<Rightarrow> unit" where
  "tableswitch_verify_loop i = (if i > 0 then tableswitch_verify_loop (i - 1) else ())"
  by pat_completeness auto
termination
  by (relation "measure nat") auto

text \<open>
  The value of an \<^verbatim>\<open>int\<close> expression whose mathematical value is \<open>x\<close>, as the machine
  computes it (wrapped to 32 bits, two's complement).
\<close>

definition jint_of :: "int \<Rightarrow> int" where
  "jint_of x = sint (word_of_int x :: 32 word)"

text \<open>\<^verbatim>\<open>Bytecode_tableswitch::verify\<close>, lines 270 to 285.\<close>

definition Bytecode_tableswitch_verify :: "globals \<Rightarrow> methodOop \<Rightarrow> nat \<Rightarrow> error + unit" where
  "Bytecode_tableswitch_verify g m bci =
     and_then (Bytecode_code m bci) (\<lambda>c.
       if java_code g c = Bytecodes_tableswitch then
         and_then (low_key m bci) (\<lambda>lo.
         and_then (high_key m bci) (\<lambda>hi.
           if ASSERT g \<and> \<not> hi \<ge> lo
           then Inl (Assert_failed ''incorrect hi/lo values in tableswitch'')
           else let i = jint_of (jint_of (hi - lo) - 1) in Inr (tableswitch_verify_loop i)))
       else Inl (Fatal ''not a tableswitch bytecode''))"

subsection \<open>Implementation of Bytecode_member_ref and Bytecode_invoke\<close>

text \<open>\<^verbatim>\<open>Bytecode_member_ref::index\<close>, lines 187 to 196.\<close>

definition Bytecode_member_ref_index :: "globals \<Rightarrow> methodOop \<Rightarrow> nat \<Rightarrow> error + int" where
  "Bytecode_member_ref_index g m bci =
     and_then (Bytecode_code m bci) (\<lambda>rawc.
       if has_index_u4 g rawc then get_index_u4 m bci rawc
       else get_index_u2_cpcache g m bci rawc)"

text \<open>
  \<^verbatim>\<open>Bytecode_member_ref::pool_index\<close>, lines 198 to 205. \<^verbatim>\<open>cache()\<close> of a pool without a
  cache is \<^verbatim>\<open>NULL\<close>, and \<^verbatim>\<open>entry_at\<close> on it is the failure \<open>Null_cache\<close>.
\<close>

definition Bytecode_member_ref_pool_index :: "globals \<Rightarrow> methodOop \<Rightarrow> nat \<Rightarrow> error + int" where
  "Bytecode_member_ref_pool_index g m bci =
     and_then (Bytecode_member_ref_index g m bci) (\<lambda>index0.
     and_then (if ASSERT g
               then and_then (Bytecode_code m bci) (\<lambda>rawc.
                      Inr (if \<not> has_index_u4 g rawc then index0 - CPCACHE_INDEX_TAG g else index0))
               else Inr index0) (\<lambda>index.
       case cache (constants m) of
         None \<Rightarrow> Inl Null_cache
       | Some c \<Rightarrow> and_then (entry_at c index) (\<lambda>e. Inr (constant_pool_index e))))"

text \<open>\<^verbatim>\<open>Bytecode_member_ref::signature\<close> and \<^verbatim>\<open>Bytecode_member_ref::name\<close>, lines 151 to 160.\<close>

definition Bytecode_member_ref_signature :: "globals \<Rightarrow> methodOop \<Rightarrow> nat \<Rightarrow> error + symbolOop" where
  "Bytecode_member_ref_signature g m bci =
     (let constants0 = constants m in
      and_then (Bytecode_member_ref_index g m bci) (\<lambda>i. Inr (signature_ref_at constants0 i)))"

definition Bytecode_member_ref_name :: "globals \<Rightarrow> methodOop \<Rightarrow> nat \<Rightarrow> error + symbolOop" where
  "Bytecode_member_ref_name g m bci =
     (let constants0 = constants m in
      and_then (Bytecode_member_ref_index g m bci) (\<lambda>i. Inr (name_ref_at constants0 i)))"

text \<open>
  \<^verbatim>\<open>Bytecode_invoke::static_target\<close>, lines 171 to 184. \<^verbatim>\<open>java_code()\<close> is
  \<^verbatim>\<open>Bytecodes::java_code(code())\<close>. A resolver fills \<open>m\<close> and \<open>resolved_klass\<close>;
  \<^verbatim>\<open>CHECK_\<close> returns at once when it left an exception pending, and the exception stays
  pending for the caller.
\<close>

definition Bytecode_java_code :: "globals \<Rightarrow> methodOop \<Rightarrow> nat \<Rightarrow> error + Code" where
  "Bytecode_java_code g m bci = and_then (Bytecode_code m bci) (\<lambda>c. Inr (java_code g c))"

definition Bytecode_invoke_static_target ::
  "globals \<Rightarrow> LinkResolver \<Rightarrow> methodOop \<Rightarrow> nat \<Rightarrow> error + methodHandle" where
  "Bytecode_invoke_static_target g lr m bci =
     (let constants0 = constants m in
      and_then (Bytecode_java_code g m bci) (\<lambda>jc.
        if jc = Bytecodes_invokedynamic then
          and_then (Bytecode_member_ref_index g m bci) (\<lambda>i.
          and_then (resolve_dynamic_method lr constants0 i) (\<lambda>(mh, resolved_klass). Inr mh))
        else if jc \<noteq> Bytecodes_invokeinterface then
          and_then (Bytecode_member_ref_index g m bci) (\<lambda>i.
          and_then (resolve_method lr constants0 i) (\<lambda>(mh, resolved_klass). Inr mh))
        else
          and_then (Bytecode_member_ref_index g m bci) (\<lambda>i.
          and_then (resolve_interface_method lr constants0 i) (\<lambda>(mh, resolved_klass). Inr mh))))"

subsection \<open>Implementation of Bytecode_loadconstant\<close>

text \<open>\<^verbatim>\<open>Bytecode_loadconstant::raw_index\<close>, lines 216 to 224.\<close>

definition Bytecode_loadconstant_raw_index :: "globals \<Rightarrow> methodOop \<Rightarrow> nat \<Rightarrow> error + int" where
  "Bytecode_loadconstant_raw_index g m bci =
     and_then (Bytecode_code m bci) (\<lambda>rawc.
       if ASSERT g \<and> \<not> rawc \<noteq> Bytecodes_wide then Inl (Assert_failed ''verifier prevents this'')
       else if java_code g rawc = Bytecodes_ldc then get_index_u1 m bci rawc
       else get_index_u2 m bci rawc False)"

text \<open>
  \<^verbatim>\<open>has_cache_index()\<close> of the accessor: the test \<open>has_cache_index\<close> of the globals on
  the opcode at \<^verbatim>\<open>pc_offset\<close>.
\<close>

definition Bytecode_loadconstant_has_cache_index :: "globals \<Rightarrow> methodOop \<Rightarrow> nat \<Rightarrow> error + bool" where
  "Bytecode_loadconstant_has_cache_index g m bci =
     and_then (Bytecode_code m bci) (\<lambda>rawc. Inr (has_cache_index g rawc))"

text \<open>\<^verbatim>\<open>Bytecode_loadconstant::pool_index\<close>, lines 226 to 232.\<close>

definition Bytecode_loadconstant_pool_index :: "globals \<Rightarrow> methodOop \<Rightarrow> nat \<Rightarrow> error + int" where
  "Bytecode_loadconstant_pool_index g m bci =
     and_then (Bytecode_loadconstant_raw_index g m bci) (\<lambda>index.
     and_then (Bytecode_loadconstant_has_cache_index g m bci) (\<lambda>hc.
       if hc then
         (case cache (constants m) of
            None \<Rightarrow> Inl Null_cache
          | Some c \<Rightarrow> and_then (entry_at c index) (\<lambda>e. Inr (constant_pool_index e)))
       else Inr index))"


subsection \<open>Implementation of Bytecode_lookupswitch\<close>

text \<open>
  Modelled from the spec (3, \<open>Jump Table (lookupswitch)\<close>, and 4.6): the accessor is the
  opcode at \<^verbatim>\<open>pc_offset\<close> and the jump table, a default offset and an ordered sequence
  of pairs; \<^verbatim>\<open>number_of_pairs()\<close> is the length of the sequence and \<^verbatim>\<open>pair_at(i)\<close> its
  \<open>i\<close>-th pair in table order, an index outside the table being an
  internal-consistency failure (spec 7).
\<close>

record LookupswitchPair =
  match :: int
  offset :: int

record Bytecode_lookupswitch =
  lookupswitch_code :: Code
  lookupswitch_default_offset :: int
  pairs :: "LookupswitchPair list"

definition number_of_pairs :: "Bytecode_lookupswitch \<Rightarrow> int" where
  "number_of_pairs self = int (length (pairs self))"

definition pair_at :: "Bytecode_lookupswitch \<Rightarrow> int \<Rightarrow> error + LookupswitchPair" where
  "pair_at self i =
     (if 0 \<le> i \<and> i < number_of_pairs self then Inr (pairs self ! nat i)
      else Inl (Assert_failed ''pair index out of bounds''))"

text \<open>
  The body of the loop of \<^verbatim>\<open>Bytecode_lookupswitch::verify\<close>, line 261: the assert, of
  which nothing is evaluated in a build without \<^verbatim>\<open>ASSERT\<close>.
\<close>

definition lookupswitch_verify_body :: "globals \<Rightarrow> Bytecode_lookupswitch \<Rightarrow> int \<Rightarrow> error + unit" where
  "lookupswitch_verify_body g self i =
     (if ASSERT g then
        and_then (pair_at self i) (\<lambda>p.
        and_then (pair_at self (i + 1)) (\<lambda>q.
          if match p < match q then Inr () else Inl (Assert_failed ''unsorted table entries'')))
      else Inr ())"

text \<open>
  The loop of \<^verbatim>\<open>Bytecode_lookupswitch::verify\<close>, lines 260 to 262. \<^verbatim>\<open>while (i-- > 0)\<close>
  tests \<open>i\<close> and then decrements it, so the body runs with \<open>i - 1\<close>.
\<close>

function lookupswitch_verify_loop :: "globals \<Rightarrow> Bytecode_lookupswitch \<Rightarrow> int \<Rightarrow> error + unit" where
  "lookupswitch_verify_loop g self i =
     (if i > 0 then
        (case lookupswitch_verify_body g self (i - 1) of
           Inl e \<Rightarrow> Inl e
         | Inr u \<Rightarrow> lookupswitch_verify_loop g self (i - 1))
      else Inr ())"
  by pat_completeness auto
termination
  by (relation "measure (\<lambda>(g, self, i). nat i)") auto

text \<open>\<^verbatim>\<open>Bytecode_lookupswitch::verify\<close>, lines 256 to 268.\<close>

definition Bytecode_lookupswitch_verify :: "globals \<Rightarrow> Bytecode_lookupswitch \<Rightarrow> error + unit" where
  "Bytecode_lookupswitch_verify g self =
     (if java_code g (lookupswitch_code self) = Bytecodes_lookupswitch then
        (let i = number_of_pairs self - 1 in lookupswitch_verify_loop g self i)
      else Inl (Fatal ''not a lookupswitch bytecode''))"

subsection \<open>The spec's words, for comparison with the code\<close>

text \<open>
  Spec 4.4: the resolution strategy is selected by the call opcode's kind, dynamic-call
  resolution for \<^verbatim>\<open>invokedynamic\<close>, interface-method resolution for
  \<^verbatim>\<open>invokeinterface\<close>, ordinary method resolution for all others.
\<close>

datatype resolution_strategy = Dynamic_call | Interface_method | Ordinary_method

definition spec_resolution_strategy :: "Code \<Rightarrow> resolution_strategy" where
  "spec_resolution_strategy jc =
     (if jc = Bytecodes_invokedynamic then Dynamic_call
      else if jc = Bytecodes_invokeinterface then Interface_method
      else Ordinary_method)"

definition resolve_by ::
  "LinkResolver \<Rightarrow> resolution_strategy \<Rightarrow> constantPoolOop \<Rightarrow> int \<Rightarrow> error + (methodHandle \<times> KlassHandle)" where
  "resolve_by lr s =
     (case s of
        Dynamic_call \<Rightarrow> resolve_dynamic_method lr
      | Interface_method \<Rightarrow> resolve_interface_method lr
      | Ordinary_method \<Rightarrow> resolve_method lr)"


text \<open>
  Spec 4.6 and 8: the pairs \<open>i\<close> and \<open>i + 1\<close> of a lookupswitch are in order when
  \<^verbatim>\<open>pair_at(i).match_key < pair_at(i+1).match_key\<close>.
\<close>

definition adjacent_in_order :: "Bytecode_lookupswitch \<Rightarrow> int \<Rightarrow> bool" where
  "adjacent_in_order self i =
     (case pair_at self i of
        Inl e \<Rightarrow> False
      | Inr p \<Rightarrow> (case pair_at self (i + 1) of Inl e \<Rightarrow> False | Inr q \<Rightarrow> match p < match q))"

subsection \<open>Example collaborators and instructions\<close>

text \<open>
  A small opcode table, two builds over it (\<open>release_vm\<close> without \<^verbatim>\<open>ASSERT\<close>,
  \<open>debug_vm\<close> with it), and the instructions of the spec's scenarios (spec 8).
  \<open>example_fast_aldc\<close> stands for a quickened \<^verbatim>\<open>ldc\<close>.
\<close>

definition example_fast_aldc :: Code where
  "example_fast_aldc = 230"

definition example_flags :: "Code \<Rightarrow> bool \<Rightarrow> int" where
  "example_flags c w =
     (if c = Bytecodes_invokevirtual \<or> c = Bytecodes_invokeinterface then 34
      else if c = Bytecodes_invokedynamic then 36
      else if c = Bytecodes_ldc then 1
      else 0)"

definition example_java_code :: "Code \<Rightarrow> Code" where
  "example_java_code c = (if c = example_fast_aldc then Bytecodes_ldc else c)"

definition example_can_rewrite :: "Code \<Rightarrow> bool" where
  "example_can_rewrite c =
     (c = Bytecodes_aload_0 \<or> c = Bytecodes_lookupswitch \<or> c = Bytecodes_new \<or>
      c = Bytecodes_ldc \<or> c = Bytecodes_invokevirtual \<or> c = Bytecodes_invokeinterface \<or>
      c = Bytecodes_invokedynamic)"

definition example_has_index_u4 :: "Code \<Rightarrow> bool" where
  "example_has_index_u4 c = (c = Bytecodes_invokedynamic)"

definition example_has_cache_index :: "Code \<Rightarrow> bool" where
  "example_has_cache_index c = (c = example_fast_aldc)"

definition release_vm :: globals where
  "release_vm =
     \<lparr>ASSERT = False, flags = example_flags, all_fmt_bits = 255,
      java_code = example_java_code, can_rewrite = example_can_rewrite,
      has_index_u4 = example_has_index_u4, has_cache_index = example_has_cache_index,
      CPCACHE_INDEX_TAG = 65536\<rparr>"

definition debug_vm :: globals where
  "debug_vm = release_vm\<lparr>ASSERT := True\<rparr>"

text \<open>A build that defines neither \<^verbatim>\<open>PRODUCT\<close> nor \<^verbatim>\<open>ASSERT\<close>.\<close>

definition optimized_vm :: globals where
  "optimized_vm = debug_vm\<lparr>ASSERT := False\<rparr>"

text \<open>A cache of fifty slots; slot \<open>i\<close> stores the pool index \<open>i + 35\<close>, so slot 7 stores 42.\<close>

definition scenario_cache :: constantPoolCacheOop where
  "scenario_cache = map (\<lambda>i. \<lparr>constant_pool_index = int i + 35\<rparr>) [0..<50]"

definition example_name_ref_at :: "int \<Rightarrow> symbolOop" where
  "example_name_ref_at i = (if i = 7 then ''run'' else ''other'')"

definition example_signature_ref_at :: "int \<Rightarrow> symbolOop" where
  "example_signature_ref_at i = (if i = 7 then ''()V'' else ''other'')"

definition example_resolve_constant_at :: "int \<Rightarrow> error + oop" where
  "example_resolve_constant_at i =
     (if i = 38 then Inr ''hello'' else Inl (Pending_exception ''unresolved''))"

definition example_resolve_cached_constant_at :: "int \<Rightarrow> error + oop" where
  "example_resolve_cached_constant_at slot =
     and_then (entry_at scenario_cache slot) (\<lambda>e. example_resolve_constant_at (constant_pool_index e))"

definition scenario_constants :: constantPoolOop where
  "scenario_constants =
     \<lparr>cache = Some scenario_cache, name_ref_at = example_name_ref_at,
      signature_ref_at = example_signature_ref_at,
      resolve_constant_at = example_resolve_constant_at,
      resolve_cached_constant_at = example_resolve_cached_constant_at\<rparr>"

definition unrewritten_constants :: constantPoolOop where
  "unrewritten_constants = scenario_constants\<lparr>cache := None\<rparr>"



definition example_method :: "u_char list \<Rightarrow> methodOop" where
  "example_method bytes = \<lparr>code_base = bytes, constants = scenario_constants\<rparr>"

definition unrewritten_method :: "u_char list \<Rightarrow> methodOop" where
  "unrewritten_method bytes = \<lparr>code_base = bytes, constants = unrewritten_constants\<rparr>"

text \<open>
  \<^verbatim>\<open>invokevirtual\<close> with the cache slot 7 as operand (after the rewrite), and with the
  pool index 42 as operand (before it).
\<close>

definition invokevirtual_post :: "u_char list" where
  "invokevirtual_post = [0xB6, 0x00, 0x07]"

definition invokevirtual_pre :: "u_char list" where
  "invokevirtual_pre = [0xB6, 0x00, 0x2A]"

definition invokeinterface_post :: "u_char list" where
  "invokeinterface_post = [0xB9, 0x00, 0x07, 0x01, 0x00]"

definition invokedynamic_post :: "u_char list" where
  "invokedynamic_post = [0xBA, 0x00, 0x00, 0x00, 0x07]"

definition breakpoint_at_invoke :: "u_char list" where
  "breakpoint_at_invoke = [0xCA, 0x00, 0x07]"

definition wide_breakpoint :: "u_char list" where
  "wide_breakpoint = [0xC4, 0xCA, 0x00, 0x07]"


definition ldc_38 :: "u_char list" where
  "ldc_38 = [0x12, 0x26]"

text \<open>
  \<^verbatim>\<open>tableswitch\<close> at offset 0: three bytes of padding, \<open>default = -20\<close>, \<open>low = 2\<close>,
  \<open>high = 4\<close>, the offsets 10, 20, 30, and after the table the four bytes of the next
  instructions.
\<close>

definition tableswitch_2_4 :: "u_char list" where
  "tableswitch_2_4 =
     [0xAA, 0x00, 0x00, 0x00,
      0xFF, 0xFF, 0xFF, 0xEC,
      0x00, 0x00, 0x00, 0x02,
      0x00, 0x00, 0x00, 0x04,
      0x00, 0x00, 0x00, 0x0A,
      0x00, 0x00, 0x00, 0x14,
      0x00, 0x00, 0x00, 0x1E,
      0x03, 0xAC, 0x04, 0xAC]"

definition tableswitch_4_2 :: "u_char list" where
  "tableswitch_4_2 =
     [0xAA, 0x00, 0x00, 0x00,
      0xFF, 0xFF, 0xFF, 0xEC,
      0x00, 0x00, 0x00, 0x04,
      0x00, 0x00, 0x00, 0x02]"

definition lookupswitch_sorted :: Bytecode_lookupswitch where
  "lookupswitch_sorted =
     \<lparr>lookupswitch_code = Bytecodes_lookupswitch, lookupswitch_default_offset = - 20,
      pairs = [\<lparr>match = 1, offset = 100\<rparr>, \<lparr>match = 5, offset = 200\<rparr>, \<lparr>match = 9, offset = 300\<rparr>]\<rparr>"

definition lookupswitch_unsorted :: Bytecode_lookupswitch where
  "lookupswitch_unsorted =
     \<lparr>lookupswitch_code = Bytecodes_lookupswitch, lookupswitch_default_offset = - 20,
      pairs = [\<lparr>match = 5, offset = 200\<rparr>, \<lparr>match = 1, offset = 100\<rparr>]\<rparr>"

definition example_resolver :: LinkResolver where
  "example_resolver =
     \<lparr>resolve_method = (\<lambda>cp i.
        if i = 7 then Inr (''C.run'', ''C'') else Inl (Pending_exception ''NoSuchMethodError'')),
      resolve_interface_method = (\<lambda>cp i.
        if i = 7 then Inr (''I.run'', ''I'')
        else Inl (Pending_exception ''IncompatibleClassChangeError'')),
      resolve_dynamic_method = (\<lambda>cp i. Inl (Pending_exception ''LinkageError''))\<rparr>"

section \<open>Properties\<close>

subsection \<open>Reading helpers\<close>

lemma and_then_Inl [simp]: "and_then (Inl e) f = Inl e"
  by (simp add: and_then_def)

lemma and_then_Inr [simp]: "and_then (Inr x) f = f x"
  by (simp add: and_then_def)

lemmas opcode_defs =
  Bytecodes_ldc_def Bytecodes_aload_0_def Bytecodes_tableswitch_def Bytecodes_lookupswitch_def
  Bytecodes_invokevirtual_def Bytecodes_invokeinterface_def Bytecodes_invokedynamic_def
  Bytecodes_new_def Bytecodes_wide_def Bytecodes_breakpoint_def

lemmas example_vm_defs =
  debug_vm_def release_vm_def example_flags_def example_java_code_def example_can_rewrite_def
  example_has_index_u4_def example_has_cache_index_def example_fast_aldc_def

subsection \<open>The rewrite policy\<close>

text \<open>
  C2. For every opcode that satisfies the precondition \<^verbatim>\<open>can_rewrite\<close>,
  \<^verbatim>\<open>check_must_rewrite\<close> returns, in every build, \<open>false\<close> exactly when the opcode is
  one of \<^verbatim>\<open>aload_0\<close>, \<^verbatim>\<open>lookupswitch\<close>, \<^verbatim>\<open>new\<close>, and \<open>true\<close> for every other such
  opcode. The result is a function of the opcode alone: nothing is read or written
  besides (the function of the model has no state to change).
\<close>

theorem check_must_rewrite_policy:
  "can_rewrite g code \<Longrightarrow>
   check_must_rewrite g code =
     Inr (code \<notin> {Bytecodes_aload_0, Bytecodes_lookupswitch, Bytecodes_new})"
  by (simp add: check_must_rewrite_def)

theorem check_must_rewrite_policy_witness:
  "can_rewrite debug_vm Bytecodes_new \<and>
   check_must_rewrite debug_vm Bytecodes_new = Inr False \<and>
   can_rewrite debug_vm Bytecodes_invokevirtual \<and>
   check_must_rewrite debug_vm Bytecodes_invokevirtual = Inr True"
  using check_must_rewrite_policy [of debug_vm Bytecodes_new]
    check_must_rewrite_policy [of debug_vm Bytecodes_invokevirtual]
  by (simp add: example_vm_defs opcode_defs)

subsection \<open>Facts about the readers and the examples\<close>

lemmas example_method_defs =
  example_method_def unrewritten_method_def scenario_constants_def unrewritten_constants_def

lemmas reader_defs =
  Bytecode_code_def byte_at_def get_Java_u2_at_def get_Java_u4_at_def Bytes_get_Java_u2_def
  Bytes_get_Java_u4_def Bytecodes_cast_def get_index_u1_def get_index_u2_def get_index_u4_def
  get_index_u2_cpcache_def

lemma byte_at_in_code:
  "0 \<le> int bci + off \<Longrightarrow> int bci + off < int (length (code_base m)) \<Longrightarrow>
   byte_at m bci off = Inr (code_base m ! nat (int bci + off))"
  by (simp add: byte_at_def)

lemma get_Java_u4_at_in_code:
  assumes "0 \<le> int bci + off" and "int bci + off + 3 < int (length (code_base m))"
  shows "get_Java_u4_at m bci off =
    Inr (sint (Bytes_get_Java_u4
      (code_base m ! nat (int bci + off)) (code_base m ! nat (int bci + off + 1))
      (code_base m ! nat (int bci + off + 2)) (code_base m ! nat (int bci + off + 3))))"
  using assms by (simp add: get_Java_u4_at_def byte_at_in_code add.assoc)

text \<open>The reads of the instruction stream do not look at the constant pool.\<close>

lemma byte_at_constants [simp]: "byte_at (m\<lparr>constants := cp\<rparr>) bci off = byte_at m bci off"
  by (simp add: byte_at_def Let_def)

lemma Bytecode_code_constants [simp]:
  "Bytecode_code (m\<lparr>constants := cp\<rparr>) bci = Bytecode_code m bci"
  by (simp add: Bytecode_code_def)

lemma raw_index_constants [simp]:
  "Bytecode_loadconstant_raw_index g (m\<lparr>constants := cp\<rparr>) bci =
   Bytecode_loadconstant_raw_index g m bci"
  by (simp add: Bytecode_loadconstant_raw_index_def get_index_u1_def get_index_u2_def
      get_Java_u2_at_def cong: if_cong)

text \<open>
  \<^verbatim>\<open>aligned_offset\<close>: a whole number of words added to the raw offset is added to the
  result, and the first aligned offset after the opcode byte is one of 1, 2, 3, 4.
\<close>

lemma aligned_offset_words:
  "aligned_offset bci (off + k * jintSize) = aligned_offset bci off + k * 4"
  unfolding aligned_offset_def round_to_def jintSize_def by presburger

lemma aligned_offset_first:
  "(int bci + aligned_offset bci 1) mod 4 = 0 \<and> 1 \<le> aligned_offset bci 1 \<and> aligned_offset bci 1 \<le> 4"
  unfolding aligned_offset_def round_to_def jintSize_def by simp presburger

lemma aligned_offset_0_1: "aligned_offset 0 1 = 4"
  by (simp add: aligned_offset_def round_to_def jintSize_def)


lemma scenario_cache_7: "entry_at scenario_cache 7 = Inr \<lparr>constant_pool_index = 42\<rparr>"
  by (simp add: entry_at_def scenario_cache_def)

lemma scenario_cache_42: "entry_at scenario_cache 42 = Inr \<lparr>constant_pool_index = 77\<rparr>"
  by (simp add: entry_at_def scenario_cache_def)

subsection \<open>The format check\<close>

text \<open>
  C8, as the code has it. \<^verbatim>\<open>assert_same_format_as(testbc, is_wide)\<close> decodes the opcode at
  \<^verbatim>\<open>pc_offset\<close> (the one after the \<^verbatim>\<open>wide\<close> prefix when \<open>is_wide\<close>) and compares its
  masked format flags with those of the expected opcode. It returns normally exactly
  when the opcode read at \<^verbatim>\<open>pc_offset\<close> is \<^verbatim>\<open>breakpoint\<close>, or, for \<open>is_wide\<close>, the first
  byte is \<^verbatim>\<open>wide\<close> and the opcode after it is \<^verbatim>\<open>breakpoint\<close> or has the expected flags,
  or, without \<open>is_wide\<close>, the opcode has the expected flags. So a pair of opcodes whose
  flags differ is fatal unless the opcode in the stream is \<^verbatim>\<open>breakpoint\<close>, for which the
  function returns before it compares anything (line 65: \<open>let the assertion fail
  silently\<close>).
\<close>

theorem assert_same_format_as_accepts:
  "assert_same_format_as g m bci testbc is_wide = Inr () \<longleftrightarrow>
   (\<exists>b0. byte_at m bci 0 = Inr b0 \<and>
      (Bytecodes_cast b0 = Bytecodes_breakpoint \<or>
       (\<not> is_wide \<and>
          flags g testbc is_wide AND all_fmt_bits g =
          flags g (Bytecodes_cast b0) is_wide AND all_fmt_bits g) \<or>
       (is_wide \<and> Bytecodes_cast b0 = Bytecodes_wide \<and>
          (\<exists>b1. byte_at m bci 1 = Inr b1 \<and>
             (Bytecodes_cast b1 = Bytecodes_breakpoint \<or>
              flags g testbc is_wide AND all_fmt_bits g =
              flags g (Bytecodes_cast b1) is_wide AND all_fmt_bits g)))))"
proof (cases "byte_at m bci 0")
  case (Inl e)
  then show ?thesis by (simp add: assert_same_format_as_def)
next
  case b0: (Inr b0)
  show ?thesis
  proof (cases "byte_at m bci 1")
    case (Inl e)
    with b0 show ?thesis
      by (auto simp add: assert_same_format_as_def expected_format_def Let_def opcode_defs)
  next
    case (Inr b1)
    with b0 show ?thesis
      by (auto simp add: assert_same_format_as_def expected_format_def Let_def opcode_defs)
  qed
qed

theorem assert_same_format_as_accepts_witness:
  "assert_same_format_as debug_vm (example_method invokevirtual_post) 0 Bytecodes_invokevirtual False
     = Inr () \<and>
   assert_same_format_as debug_vm (example_method invokevirtual_post) 0 Bytecodes_invokedynamic False
     \<noteq> Inr () \<and>
   assert_same_format_as debug_vm (example_method wide_breakpoint) 0 Bytecodes_invokevirtual True
     = Inr ()"
  using assert_same_format_as_accepts
      [of debug_vm "example_method invokevirtual_post" 0 Bytecodes_invokevirtual False]
    assert_same_format_as_accepts
      [of debug_vm "example_method invokevirtual_post" 0 Bytecodes_invokedynamic False]
    assert_same_format_as_accepts
      [of debug_vm "example_method wide_breakpoint" 0 Bytecodes_invokevirtual True]
  by (simp add: byte_at_def example_method_defs invokevirtual_post_def wide_breakpoint_def
      Bytecodes_cast_def opcode_defs example_vm_defs)

text \<open>
  C8 as it is stated fails: the instruction is a \<^verbatim>\<open>breakpoint\<close> (\<^verbatim>\<open>CA\<close>), the expected
  opcode is \<^verbatim>\<open>invokevirtual\<close>, the masked flags of the two differ in the example table,
  and the check returns normally.
\<close>

theorem assert_same_format_as_breakpoint_counterexample:
  "byte_at (example_method breakpoint_at_invoke) 0 0 = Inr 0xCA \<and>
   flags debug_vm Bytecodes_invokevirtual False AND all_fmt_bits debug_vm
     \<noteq> flags debug_vm (Bytecodes_cast 0xCA) False AND all_fmt_bits debug_vm \<and>
   assert_same_format_as debug_vm (example_method breakpoint_at_invoke) 0 Bytecodes_invokevirtual False
     = Inr ()"
  by (simp add: assert_same_format_as_def byte_at_def example_method_defs breakpoint_at_invoke_def
      Bytecodes_cast_def opcode_defs example_vm_defs)

subsection \<open>The table switch\<close>

text \<open>
  C5, as the code has it. For every index \<open>i\<close>, \<^verbatim>\<open>dest_offset_at(i)\<close> reads the four bytes
  at the position \<open>a\<close> that lies \<open>3 + i\<close> words after the first 4-byte aligned position
  at or after \<^verbatim>\<open>pc_offset + 1\<close> (past the header words default, low, high) and returns
  them as one big-endian signed value, whenever these four bytes are bytes of the
  method. The function does not compare \<open>i\<close> with \<^verbatim>\<open>high_key - low_key\<close>.
\<close>

theorem dest_offset_at_reads:
  assumes "a = int bci + aligned_offset bci 1 + 4 * (3 + i)"
    and "0 \<le> a" and "a + 3 < int (length (code_base m))"
  shows "dest_offset_at m bci i =
      Inr (sint (Bytes_get_Java_u4 (code_base m ! nat a) (code_base m ! nat (a + 1))
                  (code_base m ! nat (a + 2)) (code_base m ! nat (a + 3)))) \<and>
    a mod 4 = 0 \<and> int bci + 1 \<le> a - 4 * (3 + i) \<and> a - 4 * (3 + i) \<le> int bci + 4"
proof -
  have off: "aligned_offset bci (1 + (3 + i) * jintSize) = aligned_offset bci 1 + (3 + i) * 4"
    by (rule aligned_offset_words)
  have a: "int bci + (aligned_offset bci 1 + (3 + i) * 4) = a"
    using assms(1) by simp
  have "dest_offset_at m bci i = get_Java_u4_at m bci (aligned_offset bci 1 + (3 + i) * 4)"
    by (simp add: dest_offset_at_def off)
  also have "\<dots> = Inr (sint (Bytes_get_Java_u4 (code_base m ! nat a) (code_base m ! nat (a + 1))
                  (code_base m ! nat (a + 2)) (code_base m ! nat (a + 3))))"
    using get_Java_u4_at_in_code [of bci "aligned_offset bci 1 + (3 + i) * 4" m] assms(2,3)
    unfolding a by simp
  finally have value_read: "dest_offset_at m bci i =
      Inr (sint (Bytes_get_Java_u4 (code_base m ! nat a) (code_base m ! nat (a + 1))
                  (code_base m ! nat (a + 2)) (code_base m ! nat (a + 3))))" .
  have place: "a mod 4 = 0 \<and> int bci + 1 \<le> a - 4 * (3 + i) \<and> a - 4 * (3 + i) \<le> int bci + 4"
    using aligned_offset_first [of bci] assms(1) by presburger
  from value_read place show ?thesis by simp
qed

theorem dest_offset_at_reads_witness:
  "dest_offset_at (example_method tableswitch_2_4) 0 0 = Inr 10 \<and>
   dest_offset_at (example_method tableswitch_2_4) 0 2 = Inr 30"
  using dest_offset_at_reads [of 16 0 0 "example_method tableswitch_2_4"]
    dest_offset_at_reads [of 24 0 2 "example_method tableswitch_2_4"]
  by (simp add: aligned_offset_0_1 example_method_def tableswitch_2_4_def Bytes_get_Java_u4_def)

text \<open>
  C5 as it is stated fails in its second half: in the table of the spec's scenario
  (\<open>low = 2\<close>, \<open>high = 4\<close>) the index 3 lies beyond \<open>high - low\<close>, and \<^verbatim>\<open>dest_offset_at(3)\<close>
  returns the four bytes that follow the table; the index \<open>-1\<close> returns the header word
  \<open>high\<close>.
\<close>

theorem dest_offset_at_unchecked_counterexample:
  "low_key (example_method tableswitch_2_4) 0 = Inr 2 \<and>
   high_key (example_method tableswitch_2_4) 0 = Inr 4 \<and>
   dest_offset_at (example_method tableswitch_2_4) 0 3 = Inr 61605036 \<and>
   dest_offset_at (example_method tableswitch_2_4) 0 (- 1) = Inr 4"
  by (simp add: low_key_def high_key_def dest_offset_at_def aligned_offset_def round_to_def
      jintSize_def get_Java_u4_at_def byte_at_def example_method_def tableswitch_2_4_def
      Bytes_get_Java_u4_def)

subsection \<open>Validation of the switch accessors\<close>

declare lookupswitch_verify_loop.simps [simp del]

lemma pair_at_in_table:
  "0 \<le> i \<Longrightarrow> i < number_of_pairs self \<Longrightarrow> pair_at self i = Inr (pairs self ! nat i)"
  by (simp add: pair_at_def)

lemma lookupswitch_verify_body_in_table:
  "ASSERT g \<Longrightarrow> 0 \<le> i \<Longrightarrow> i + 1 < number_of_pairs self \<Longrightarrow>
   lookupswitch_verify_body g self i =
     (if adjacent_in_order self i then Inr () else Inl (Assert_failed ''unsorted table entries''))"
  by (simp add: lookupswitch_verify_body_def adjacent_in_order_def pair_at_in_table)

text \<open>
  The loop started at \<open>k\<close> checks the adjacent pairs below \<open>k\<close>, from the last to the
  first, and stops at the first pair out of order.
\<close>

lemma lookupswitch_verify_loop_sorted:
  "ASSERT g \<Longrightarrow> k \<le> number_of_pairs self - 1 \<Longrightarrow>
   lookupswitch_verify_loop g self k =
     (if \<forall>i. 0 \<le> i \<and> i < k \<longrightarrow> adjacent_in_order self i then Inr ()
      else Inl (Assert_failed ''unsorted table entries''))"
proof (induction g self k rule: lookupswitch_verify_loop.induct)
  case (1 g self k)
  show ?case
  proof (cases "k > 0")
    case False
    then show ?thesis by (subst lookupswitch_verify_loop.simps) auto
  next
    case True
    have body: "lookupswitch_verify_body g self (k - 1) =
        (if adjacent_in_order self (k - 1) then Inr ()
         else Inl (Assert_failed ''unsorted table entries''))"
      using True "1.prems" lookupswitch_verify_body_in_table [of g "k - 1" self] by simp
    have split: "(\<forall>i. 0 \<le> i \<and> i < k \<longrightarrow> adjacent_in_order self i) =
        ((\<forall>i. 0 \<le> i \<and> i < k - 1 \<longrightarrow> adjacent_in_order self i) \<and> adjacent_in_order self (k - 1))"
    proof
      assume "\<forall>i. 0 \<le> i \<and> i < k \<longrightarrow> adjacent_in_order self i"
      then show "(\<forall>i. 0 \<le> i \<and> i < k - 1 \<longrightarrow> adjacent_in_order self i) \<and>
          adjacent_in_order self (k - 1)"
        using True by auto
    next
      assume below: "(\<forall>i. 0 \<le> i \<and> i < k - 1 \<longrightarrow> adjacent_in_order self i) \<and>
          adjacent_in_order self (k - 1)"
      show "\<forall>i. 0 \<le> i \<and> i < k \<longrightarrow> adjacent_in_order self i"
      proof (intro allI impI)
        fix i assume i: "0 \<le> i \<and> i < k"
        then have "i < k - 1 \<or> i = k - 1" by arith
        with below i show "adjacent_in_order self i" by auto
      qed
    qed
    show ?thesis
    proof (cases "adjacent_in_order self (k - 1)")
      case ok: True
      have "lookupswitch_verify_loop g self k = lookupswitch_verify_loop g self (k - 1)"
        using True body ok by (subst lookupswitch_verify_loop.simps) simp
      also have "\<dots> = (if \<forall>i. 0 \<le> i \<and> i < k - 1 \<longrightarrow> adjacent_in_order self i then Inr ()
          else Inl (Assert_failed ''unsorted table entries''))"
        using "1.IH" [OF True, of "()"] body ok "1.prems" by simp
      finally show ?thesis using split ok by simp
    next
      case bad: False
      have "lookupswitch_verify_loop g self k = Inl (Assert_failed ''unsorted table entries'')"
        using True body bad by (subst lookupswitch_verify_loop.simps) simp
      then show ?thesis using split bad by simp
    qed
  qed
qed

lemma sorted_adjacent:
  "\<forall>i. 0 \<le> i \<and> i < number_of_pairs lookupswitch_sorted - 1 \<longrightarrow>
     adjacent_in_order lookupswitch_sorted i"
proof (intro allI impI)
  fix i :: int
  assume "0 \<le> i \<and> i < number_of_pairs lookupswitch_sorted - 1"
  then have "i = 0 \<or> i = 1"
    by (simp add: number_of_pairs_def lookupswitch_sorted_def) arith
  then show "adjacent_in_order lookupswitch_sorted i"
    by (auto simp add: adjacent_in_order_def pair_at_def number_of_pairs_def lookupswitch_sorted_def)
qed

lemma unsorted_adjacent:
  "\<not> (\<forall>i. 0 \<le> i \<and> i < number_of_pairs lookupswitch_unsorted - 1 \<longrightarrow>
        adjacent_in_order lookupswitch_unsorted i)"
proof
  assume "\<forall>i. 0 \<le> i \<and> i < number_of_pairs lookupswitch_unsorted - 1 \<longrightarrow>
     adjacent_in_order lookupswitch_unsorted i"
  then have "0 \<le> (0::int) \<and> 0 < number_of_pairs lookupswitch_unsorted - 1 \<longrightarrow>
     adjacent_in_order lookupswitch_unsorted 0" by (rule spec)
  then show False
    by (simp add: adjacent_in_order_def pair_at_def number_of_pairs_def lookupswitch_unsorted_def)
qed

lemma tableswitch_2_4_header:
  "Bytecode_code (example_method tableswitch_2_4) 0 = Inr Bytecodes_tableswitch"
  "low_key (example_method tableswitch_2_4) 0 = Inr 2"
  "high_key (example_method tableswitch_2_4) 0 = Inr 4"
  by (simp_all add: low_key_def high_key_def aligned_offset_def round_to_def jintSize_def
      reader_defs example_method_def tableswitch_2_4_def opcode_defs)

lemma tableswitch_4_2_header:
  "Bytecode_code (example_method tableswitch_4_2) 0 = Inr Bytecodes_tableswitch"
  "low_key (example_method tableswitch_4_2) 0 = Inr 4"
  "high_key (example_method tableswitch_4_2) 0 = Inr 2"
  by (simp_all add: low_key_def high_key_def aligned_offset_def round_to_def jintSize_def
      reader_defs example_method_def tableswitch_4_2_def opcode_defs)

lemma lookupswitch_verify_loop_no_assert:
  "\<not> ASSERT g \<Longrightarrow> lookupswitch_verify_loop g self k = Inr ()"
proof (induction g self k rule: lookupswitch_verify_loop.induct)
  case (1 g self k)
  have body: "lookupswitch_verify_body g self (k - 1) = Inr ()"
    using "1.prems" by (simp add: lookupswitch_verify_body_def)
  show ?case
  proof (cases "k > 0")
    case False
    then show ?thesis by (subst lookupswitch_verify_loop.simps) simp
  next
    case True
    have "lookupswitch_verify_loop g self k = lookupswitch_verify_loop g self (k - 1)"
      using True body by (subst lookupswitch_verify_loop.simps) simp
    also have "\<dots> = Inr ()"
      using "1.IH" [OF True, of "()"] body "1.prems" by simp
    finally show ?thesis .
  qed
qed

text \<open>
  C6, as the code has it. The checks of the two \<^verbatim>\<open>verify()\<close> functions are asserts, so
  they are made in the builds that compile asserts in (\<^verbatim>\<open>ASSERT\<close>), not in every build
  without \<^verbatim>\<open>PRODUCT\<close>. With \<^verbatim>\<open>ASSERT\<close>, validation succeeds exactly on well-formed
  tables: on a \<^verbatim>\<open>lookupswitch\<close>, \<^verbatim>\<open>verify()\<close> fails the assert \<open>unsorted table entries\<close>
  unless \<^verbatim>\<open>pair_at(i).match < pair_at(i+1).match\<close> holds for every \<open>i\<close> with
  \<open>0 \<le> i < number_of_pairs - 1\<close>; on a \<^verbatim>\<open>tableswitch\<close> whose header words are \<open>lo\<close> and
  \<open>hi\<close> it fails the assert \<open>incorrect hi/lo values in tableswitch\<close> unless \<open>hi \<ge> lo\<close>.
  Without \<^verbatim>\<open>ASSERT\<close>, \<^verbatim>\<open>verify()\<close> returns normally on every table of the matching
  opcode.
\<close>

theorem switch_verify_well_formed:
  "(java_code g (lookupswitch_code self) = Bytecodes_lookupswitch \<longrightarrow>
      Bytecode_lookupswitch_verify g self =
        (if ASSERT g \<and>
            \<not> (\<forall>i. 0 \<le> i \<and> i < number_of_pairs self - 1 \<longrightarrow> adjacent_in_order self i)
         then Inl (Assert_failed ''unsorted table entries'') else Inr ())) \<and>
   (Bytecode_code m bci = Inr c \<and> java_code g c = Bytecodes_tableswitch \<and>
    low_key m bci = Inr lo \<and> high_key m bci = Inr hi \<longrightarrow>
      Bytecode_tableswitch_verify g m bci =
        (if ASSERT g \<and> \<not> hi \<ge> lo
         then Inl (Assert_failed ''incorrect hi/lo values in tableswitch'') else Inr ()))"
proof (intro conjI impI)
  assume opcode: "java_code g (lookupswitch_code self) = Bytecodes_lookupswitch"
  have loop: "lookupswitch_verify_loop g self (number_of_pairs self - 1) =
      (if ASSERT g \<and>
          \<not> (\<forall>i. 0 \<le> i \<and> i < number_of_pairs self - 1 \<longrightarrow> adjacent_in_order self i)
       then Inl (Assert_failed ''unsorted table entries'') else Inr ())"
  proof (cases "ASSERT g")
    case True
    then show ?thesis
      using lookupswitch_verify_loop_sorted [of g "number_of_pairs self - 1" self] by auto
  next
    case False
    then show ?thesis
      using lookupswitch_verify_loop_no_assert [of g self "number_of_pairs self - 1"] by simp
  qed
  have "Bytecode_lookupswitch_verify g self =
      lookupswitch_verify_loop g self (number_of_pairs self - 1)"
    using opcode by (simp add: Bytecode_lookupswitch_verify_def Let_def)
  then show "Bytecode_lookupswitch_verify g self =
      (if ASSERT g \<and>
          \<not> (\<forall>i. 0 \<le> i \<and> i < number_of_pairs self - 1 \<longrightarrow> adjacent_in_order self i)
       then Inl (Assert_failed ''unsorted table entries'') else Inr ())"
    by (simp only: loop)
next
  assume "Bytecode_code m bci = Inr c \<and> java_code g c = Bytecodes_tableswitch \<and>
    low_key m bci = Inr lo \<and> high_key m bci = Inr hi"
  then show "Bytecode_tableswitch_verify g m bci =
      (if ASSERT g \<and> \<not> hi \<ge> lo
       then Inl (Assert_failed ''incorrect hi/lo values in tableswitch'') else Inr ())"
    by (simp add: Bytecode_tableswitch_verify_def Let_def)
qed

theorem switch_verify_well_formed_witness:
  "ASSERT debug_vm \<and>
   Bytecode_lookupswitch_verify debug_vm lookupswitch_sorted = Inr () \<and>
   Bytecode_lookupswitch_verify debug_vm lookupswitch_unsorted
     = Inl (Assert_failed ''unsorted table entries'') \<and>
   Bytecode_tableswitch_verify debug_vm (example_method tableswitch_2_4) 0 = Inr () \<and>
   Bytecode_tableswitch_verify debug_vm (example_method tableswitch_4_2) 0
     = Inl (Assert_failed ''incorrect hi/lo values in tableswitch'')"
proof -
  have a: "ASSERT debug_vm" by (simp add: example_vm_defs)
  have g: "java_code debug_vm Bytecodes_lookupswitch = Bytecodes_lookupswitch"
    "java_code debug_vm Bytecodes_tableswitch = Bytecodes_tableswitch"
    by (simp_all add: example_vm_defs opcode_defs)
  have s: "lookupswitch_code lookupswitch_sorted = Bytecodes_lookupswitch"
    "lookupswitch_code lookupswitch_unsorted = Bytecodes_lookupswitch"
    by (simp_all add: lookupswitch_sorted_def lookupswitch_unsorted_def)
  show ?thesis
    using switch_verify_well_formed [of debug_vm lookupswitch_sorted
        "example_method tableswitch_2_4" 0 Bytecodes_tableswitch 2 4]
      switch_verify_well_formed [of debug_vm lookupswitch_unsorted
        "example_method tableswitch_4_2" 0 Bytecodes_tableswitch 4 2]
      sorted_adjacent unsorted_adjacent
    by (simp add: a g s tableswitch_2_4_header tableswitch_4_2_header)
qed

text \<open>
  C6 as it is stated fails. In the build that defines neither \<^verbatim>\<open>PRODUCT\<close> nor \<^verbatim>\<open>ASSERT\<close>
  the two \<^verbatim>\<open>verify()\<close> functions are compiled and their asserts are not: \<^verbatim>\<open>verify()\<close>
  returns normally on the lookupswitch with the pairs \<open>(5, 200), (1, 100)\<close>, whose first
  two pairs are out of order, and on the tableswitch with \<open>low = 4\<close> and \<open>high = 2\<close>.
\<close>

theorem switch_verify_without_assert_counterexample:
  "\<not> ASSERT optimized_vm \<and>
   \<not> adjacent_in_order lookupswitch_unsorted 0 \<and>
   Bytecode_lookupswitch_verify optimized_vm lookupswitch_unsorted = Inr () \<and>
   low_key (example_method tableswitch_4_2) 0 = Inr 4 \<and>
   high_key (example_method tableswitch_4_2) 0 = Inr 2 \<and>
   Bytecode_tableswitch_verify optimized_vm (example_method tableswitch_4_2) 0 = Inr ()"
proof -
  have a: "\<not> ASSERT optimized_vm" by (simp add: optimized_vm_def)
  have g: "java_code optimized_vm Bytecodes_lookupswitch = Bytecodes_lookupswitch"
    "java_code optimized_vm Bytecodes_tableswitch = Bytecodes_tableswitch"
    by (simp_all add: optimized_vm_def example_vm_defs opcode_defs)
  have pairs: "\<not> adjacent_in_order lookupswitch_unsorted 0"
    by (simp add: adjacent_in_order_def pair_at_def number_of_pairs_def lookupswitch_unsorted_def)
  have lookup: "Bytecode_lookupswitch_verify optimized_vm lookupswitch_unsorted = Inr ()"
    using lookupswitch_verify_loop_no_assert [OF a] g
    by (simp add: Bytecode_lookupswitch_verify_def lookupswitch_unsorted_def)
  have table: "Bytecode_tableswitch_verify optimized_vm (example_method tableswitch_4_2) 0 = Inr ()"
    using a g by (simp add: Bytecode_tableswitch_verify_def tableswitch_4_2_header)
  from a pairs lookup table show ?thesis
    by (simp add: tableswitch_4_2_header)
qed

text \<open>
  C9. \<^verbatim>\<open>verify()\<close> of a switch accessor on an instruction whose opcode, mapped to its
  canonical form by \<^verbatim>\<open>java_code\<close>, is not the matching switch opcode ends in \<^verbatim>\<open>fatal\<close>,
  whatever the table holds and whether or not asserts are compiled in:
  \<open>not a lookupswitch bytecode\<close> for the one, \<open>not a tableswitch bytecode\<close> for the
  other.
\<close>

theorem switch_verify_wrong_opcode_fatal:
  "(java_code g (lookupswitch_code self) \<noteq> Bytecodes_lookupswitch \<longrightarrow>
     Bytecode_lookupswitch_verify g self = Inl (Fatal ''not a lookupswitch bytecode'')) \<and>
   (Bytecode_code m bci = Inr c \<and> java_code g c \<noteq> Bytecodes_tableswitch \<longrightarrow>
     Bytecode_tableswitch_verify g m bci = Inl (Fatal ''not a tableswitch bytecode''))"
  by (simp add: Bytecode_lookupswitch_verify_def Bytecode_tableswitch_verify_def)

theorem switch_verify_wrong_opcode_fatal_witness:
  "Bytecode_lookupswitch_verify debug_vm
     (lookupswitch_sorted\<lparr>lookupswitch_code := Bytecodes_tableswitch\<rparr>)
     = Inl (Fatal ''not a lookupswitch bytecode'') \<and>
   Bytecode_tableswitch_verify release_vm (example_method invokevirtual_post) 0
     = Inl (Fatal ''not a tableswitch bytecode'')"
  using switch_verify_wrong_opcode_fatal
      [of debug_vm "lookupswitch_sorted\<lparr>lookupswitch_code := Bytecodes_tableswitch\<rparr>"]
    switch_verify_wrong_opcode_fatal
      [of release_vm _ "example_method invokevirtual_post" 0 Bytecodes_invokevirtual]
  by (simp add: example_vm_defs opcode_defs reader_defs example_method_def invokevirtual_post_def)

subsection \<open>Member references\<close>

text \<open>
  C1, as the code has it. \<^verbatim>\<open>pool_index()\<close> of a member reference reads the operand of
  the instruction as a cache slot, two bytes wide or four as \<^verbatim>\<open>has_index_u4\<close> says, and
  returns the pool index stored in that slot's entry of the attached cache. The tag
  that a build with \<^verbatim>\<open>ASSERT\<close> puts on the two byte index is taken off again before the
  lookup, so the result is the same in every build. For the encoding after the rewrite,
  whose operand is the slot \<open>c\<close> populated with the pool slot \<open>p\<close>, the result is \<open>p\<close>.
\<close>

theorem member_ref_pool_index_through_cache:
  assumes "Bytecode_code m bci = Inr rawc"
    and "(if has_index_u4 g rawc then get_Java_u4_at m bci 1 else get_Java_u2_at m bci 1) = Inr slot"
    and "cache (constants m) = Some c"
    and "entry_at c slot = Inr e"
  shows "Bytecode_member_ref_pool_index g m bci = Inr (constant_pool_index e)"
  using assms
  by (simp add: Bytecode_member_ref_pool_index_def Bytecode_member_ref_index_def
      get_index_u4_def get_index_u2_cpcache_def split: if_splits)

theorem member_ref_pool_index_through_cache_witness:
  "Bytecode_member_ref_index release_vm (example_method invokevirtual_post) 0 = Inr 7 \<and>
   Bytecode_member_ref_pool_index release_vm (example_method invokevirtual_post) 0 = Inr 42 \<and>
   Bytecode_member_ref_pool_index debug_vm (example_method invokevirtual_post) 0 = Inr 42 \<and>
   Bytecode_member_ref_pool_index debug_vm (example_method invokedynamic_post) 0 = Inr 42"
  using member_ref_pool_index_through_cache
      [of "example_method invokevirtual_post" 0 Bytecodes_invokevirtual release_vm 7
        scenario_cache, OF _ _ _ scenario_cache_7]
    member_ref_pool_index_through_cache
      [of "example_method invokevirtual_post" 0 Bytecodes_invokevirtual debug_vm 7
        scenario_cache, OF _ _ _ scenario_cache_7]
    member_ref_pool_index_through_cache
      [of "example_method invokedynamic_post" 0 Bytecodes_invokedynamic debug_vm 7
        scenario_cache, OF _ _ _ scenario_cache_7]
  by (simp add: reader_defs example_method_defs invokevirtual_post_def invokedynamic_post_def
      opcode_defs example_vm_defs Bytecode_member_ref_index_def)

text \<open>
  C1 as it is stated fails. The cache stores the pool slot 42 in its slot 7. After the
  rewrite the operand of the \<^verbatim>\<open>invokevirtual\<close> is 7 and \<^verbatim>\<open>pool_index()\<close> is 42. Before the
  rewrite the operand is the pool index 42 itself; \<^verbatim>\<open>pool_index()\<close> looks it up as a
  cache slot and returns what slot 42 stores, 77.
\<close>

theorem member_ref_pool_index_pre_rewrite_counterexample:
  "entry_at scenario_cache 7 = Inr \<lparr>constant_pool_index = 42\<rparr> \<and>
   get_index_u2 (example_method invokevirtual_pre) 0 Bytecodes_invokevirtual False = Inr 42 \<and>
   Bytecode_member_ref_pool_index release_vm (example_method invokevirtual_post) 0 = Inr 42 \<and>
   Bytecode_member_ref_pool_index release_vm (example_method invokevirtual_pre) 0 = Inr 77"
  by (simp add: Bytecode_member_ref_pool_index_def Bytecode_member_ref_index_def
      reader_defs example_method_defs invokevirtual_post_def invokevirtual_pre_def
      opcode_defs example_vm_defs scenario_cache_7 scenario_cache_42)

text \<open>
  C7, as the code has it. \<^verbatim>\<open>name()\<close> and \<^verbatim>\<open>signature()\<close> hand \<^verbatim>\<open>index()\<close> (the operand
  of the instruction, with the cache-index tag on a two byte operand in a build with
  \<^verbatim>\<open>ASSERT\<close>) to \<^verbatim>\<open>name_ref_at\<close> and \<^verbatim>\<open>signature_ref_at\<close> of the constant pool, before and
  after the rewrite alike, and return what the pool answers; a failure to read the
  operand is the failure of both. Neither calls \<^verbatim>\<open>pool_index()\<close>.
\<close>

theorem member_ref_name_signature_by_index:
  "(Bytecode_member_ref_index g m bci = Inr i \<longrightarrow>
      Bytecode_member_ref_name g m bci = Inr (name_ref_at (constants m) i) \<and>
      Bytecode_member_ref_signature g m bci = Inr (signature_ref_at (constants m) i)) \<and>
   (Bytecode_member_ref_index g m bci = Inl e \<longrightarrow>
      Bytecode_member_ref_name g m bci = Inl e \<and> Bytecode_member_ref_signature g m bci = Inl e)"
  by (simp add: Bytecode_member_ref_name_def Bytecode_member_ref_signature_def)

theorem member_ref_name_signature_by_index_witness:
  "Bytecode_member_ref_index release_vm (example_method invokevirtual_post) 0 = Inr 7 \<and>
   Bytecode_member_ref_name release_vm (example_method invokevirtual_post) 0 = Inr ''run'' \<and>
   Bytecode_member_ref_signature release_vm (example_method invokevirtual_post) 0 = Inr ''()V'' \<and>
   Bytecode_member_ref_index release_vm (example_method []) 0 = Inl Out_of_code \<and>
   Bytecode_member_ref_name release_vm (example_method []) 0 = Inl Out_of_code"
  using member_ref_name_signature_by_index
      [of release_vm "example_method invokevirtual_post" 0 7]
    member_ref_name_signature_by_index [of release_vm "example_method []" 0 _ Out_of_code]
  by (simp add: reader_defs example_method_defs invokevirtual_post_def opcode_defs
      example_vm_defs Bytecode_member_ref_index_def example_name_ref_at_def
      example_signature_ref_at_def)

text \<open>
  C7 as it is stated fails. For the rewritten \<^verbatim>\<open>invokevirtual\<close> of the scenario
  \<^verbatim>\<open>index()\<close> is 7 and \<^verbatim>\<open>pool_index()\<close> is 42; \<^verbatim>\<open>name()\<close> is the pool's answer for 7, not
  its answer for 42.
\<close>

theorem member_ref_name_not_by_pool_index_counterexample:
  "Bytecode_member_ref_index release_vm (example_method invokevirtual_post) 0 = Inr 7 \<and>
   Bytecode_member_ref_pool_index release_vm (example_method invokevirtual_post) 0 = Inr 42 \<and>
   Bytecode_member_ref_name release_vm (example_method invokevirtual_post) 0 = Inr ''run'' \<and>
   name_ref_at (constants (example_method invokevirtual_post)) 42 = ''other''"
  by (simp add: Bytecode_member_ref_pool_index_def Bytecode_member_ref_index_def
      Bytecode_member_ref_name_def reader_defs example_method_defs invokevirtual_post_def
      example_name_ref_at_def opcode_defs example_vm_defs scenario_cache_7)

lemma loadconstant_pool_index_direct:
  assumes "Bytecode_code m bci = Inr rawc" and "\<not> has_cache_index g rawc"
  shows "Bytecode_loadconstant_pool_index g m bci = Bytecode_loadconstant_raw_index g m bci"
  using assms
  by (cases "Bytecode_loadconstant_raw_index g m bci")
     (simp_all add: Bytecode_loadconstant_pool_index_def Bytecode_loadconstant_has_cache_index_def)

text \<open>
  C10. \<^verbatim>\<open>Bytecode_member_ref::pool_index()\<close> resolves through the cache in every case:
  whichever encoding the instruction has, with the operand \<open>slot\<close> read from it the
  result is the pool index that \<^verbatim>\<open>entry_at(slot)\<close> of the attached cache stores, the
  failure of \<^verbatim>\<open>entry_at\<close> when the cache has no such slot, and the failure of the
  \<^verbatim>\<open>NULL\<close> cache when none is attached. So every value it returns is stored in an entry
  of the attached cache, and without a cache the call fails once the operand is read.
  By contrast \<^verbatim>\<open>Bytecode_loadconstant::pool_index()\<close> is \<^verbatim>\<open>raw_index()\<close> whenever
  \<^verbatim>\<open>has_cache_index()\<close> is false, whatever cache the pool has or lacks.
\<close>

theorem pool_index_cache_use:
  "(Bytecode_code m bci = Inr rawc \<and>
    (if has_index_u4 g rawc then get_Java_u4_at m bci 1 else get_Java_u2_at m bci 1) = Inr slot \<longrightarrow>
      Bytecode_member_ref_pool_index g m bci =
        (case cache (constants m) of
           None \<Rightarrow> Inl Null_cache
         | Some c \<Rightarrow>
             (case entry_at c slot of Inl e \<Rightarrow> Inl e | Inr en \<Rightarrow> Inr (constant_pool_index en)))) \<and>
   (Bytecode_member_ref_pool_index g m bci = Inr p \<longrightarrow>
      (\<exists>c slot e. cache (constants m) = Some c \<and> entry_at c slot = Inr e \<and>
         constant_pool_index e = p)) \<and>
   (cache (constants m) = None \<and> Bytecode_member_ref_index g m bci = Inr i \<longrightarrow>
      Bytecode_member_ref_pool_index g m bci = Inl Null_cache) \<and>
   (Bytecode_code m bci = Inr lc \<and> \<not> has_cache_index g lc \<longrightarrow>
      Bytecode_loadconstant_pool_index g (m\<lparr>constants := (constants m)\<lparr>cache := x\<rparr>\<rparr>) bci
        = Bytecode_loadconstant_raw_index g m bci)"
proof (intro conjI impI)
  assume "Bytecode_code m bci = Inr rawc \<and>
    (if has_index_u4 g rawc then get_Java_u4_at m bci 1 else get_Java_u2_at m bci 1) = Inr slot"
  then show "Bytecode_member_ref_pool_index g m bci =
        (case cache (constants m) of
           None \<Rightarrow> Inl Null_cache
         | Some c \<Rightarrow>
             (case entry_at c slot of Inl e \<Rightarrow> Inl e | Inr en \<Rightarrow> Inr (constant_pool_index en)))"
    by (simp add: Bytecode_member_ref_pool_index_def Bytecode_member_ref_index_def
        get_index_u4_def get_index_u2_cpcache_def and_then_def
        split: if_splits option.splits sum.splits)
next
  assume "Bytecode_member_ref_pool_index g m bci = Inr p"
  then show "\<exists>c slot e. cache (constants m) = Some c \<and> entry_at c slot = Inr e \<and>
      constant_pool_index e = p"
    by (auto simp add: Bytecode_member_ref_pool_index_def and_then_def
        split: sum.splits option.splits if_splits)
next
  assume "cache (constants m) = None \<and> Bytecode_member_ref_index g m bci = Inr i"
  then show "Bytecode_member_ref_pool_index g m bci = Inl Null_cache"
    by (cases "Bytecode_code m bci")
       (simp_all add: Bytecode_member_ref_pool_index_def Bytecode_member_ref_index_def)
next
  assume direct: "Bytecode_code m bci = Inr lc \<and> \<not> has_cache_index g lc"
  show "Bytecode_loadconstant_pool_index g (m\<lparr>constants := (constants m)\<lparr>cache := x\<rparr>\<rparr>) bci
        = Bytecode_loadconstant_raw_index g m bci"
    using loadconstant_pool_index_direct
      [of "m\<lparr>constants := (constants m)\<lparr>cache := x\<rparr>\<rparr>" bci lc g] direct by simp
qed

theorem pool_index_cache_use_witness:
  "Bytecode_member_ref_pool_index debug_vm (example_method invokeinterface_post) 0 = Inr 42 \<and>
   Bytecode_member_ref_pool_index release_vm (example_method invokedynamic_post) 0 = Inr 42 \<and>
   Bytecode_member_ref_pool_index release_vm (example_method invokevirtual_pre) 0 = Inr 77 \<and>
   Bytecode_member_ref_pool_index debug_vm (unrewritten_method invokevirtual_pre) 0
     = Inl Null_cache \<and>
   Bytecode_member_ref_pool_index release_vm (unrewritten_method invokevirtual_pre) 0
     = Inl Null_cache \<and>
   Bytecode_loadconstant_pool_index release_vm (unrewritten_method ldc_38) 0 = Inr 38"
  using pool_index_cache_use [where g = debug_vm and m = "example_method invokeinterface_post"
      and bci = 0 and rawc = Bytecodes_invokeinterface and slot = 7]
    pool_index_cache_use [where g = release_vm and m = "example_method invokedynamic_post"
      and bci = 0 and rawc = Bytecodes_invokedynamic and slot = 7]
    pool_index_cache_use [where g = release_vm and m = "example_method invokevirtual_pre"
      and bci = 0 and rawc = Bytecodes_invokevirtual and slot = 42]
    pool_index_cache_use [where g = debug_vm and m = "unrewritten_method invokevirtual_pre"
      and bci = 0 and i = 65578]
    pool_index_cache_use [where g = release_vm and m = "unrewritten_method invokevirtual_pre"
      and bci = 0 and i = 42]
    pool_index_cache_use [where g = release_vm and m = "example_method ldc_38" and bci = 0
      and lc = Bytecodes_ldc and x = None]
  by (simp add: reader_defs example_method_defs invokevirtual_pre_def ldc_38_def
      invokeinterface_post_def invokedynamic_post_def scenario_cache_7 scenario_cache_42
      opcode_defs example_vm_defs Bytecode_member_ref_index_def
      Bytecode_loadconstant_raw_index_def)

subsection \<open>Call sites\<close>

text \<open>
  C4. \<^verbatim>\<open>static_target()\<close> calls exactly one entry of the link resolver, with the constant
  pool and \<^verbatim>\<open>index()\<close>: the entry for the strategy that the spec assigns to the canonical
  opcode, dynamic-call resolution for \<^verbatim>\<open>invokedynamic\<close>, interface-method resolution for
  \<^verbatim>\<open>invokeinterface\<close>, ordinary method resolution for every other opcode. It returns
  the method the resolver found; when the resolver fails, its failure is the result,
  unchanged.
\<close>

theorem static_target_dispatch:
  assumes "Bytecode_code m bci = Inr rawc" and "Bytecode_member_ref_index g m bci = Inr i"
  shows "Bytecode_invoke_static_target g lr m bci =
    (case resolve_by lr (spec_resolution_strategy (java_code g rawc)) (constants m) i of
       Inl e \<Rightarrow> Inl e
     | Inr r \<Rightarrow> Inr (fst r))"
  using assms
  by (simp add: Bytecode_invoke_static_target_def Bytecode_java_code_def resolve_by_def
      spec_resolution_strategy_def and_then_def opcode_defs split: sum.splits prod.splits)

theorem static_target_dispatch_witness:
  "Bytecode_invoke_static_target release_vm example_resolver (example_method invokevirtual_post) 0
     = Inr ''C.run'' \<and>
   Bytecode_invoke_static_target release_vm example_resolver (example_method invokeinterface_post) 0
     = Inr ''I.run'' \<and>
   Bytecode_invoke_static_target release_vm example_resolver (example_method invokedynamic_post) 0
     = Inl (Pending_exception ''LinkageError'')"
  using static_target_dispatch [of "example_method invokevirtual_post" 0
      Bytecodes_invokevirtual release_vm 7 example_resolver]
    static_target_dispatch [of "example_method invokeinterface_post" 0
      Bytecodes_invokeinterface release_vm 7 example_resolver]
    static_target_dispatch [of "example_method invokedynamic_post" 0
      Bytecodes_invokedynamic release_vm 7 example_resolver]
  by (simp add: reader_defs example_method_defs invokevirtual_post_def invokeinterface_post_def
      invokedynamic_post_def opcode_defs example_vm_defs Bytecode_member_ref_index_def
      resolve_by_def spec_resolution_strategy_def example_resolver_def)

subsection \<open>Constant loads\<close>




end
